theory Spec2Isabelle
  imports Complex_Main
begin

section \<open>The C library on character buffers\<close>

text \<open>
  A character buffer is a \<open>char list\<close>. The terminating NUL of the C buffer is the
  end of the list; a NUL that \<open>strtok\<close> writes into the buffer is the character
  \<open>NUL\<close>. A pointer into a buffer is an offset, the null pointer is \<open>None\<close>.
  A file is the list of the strings that successive calls of \<open>fgets\<close> return
  (each line with its newline); \<open>fgets\<close> returns the null pointer on the empty list.
  Input files are taken to hold no NUL byte.
\<close>

definition NUL :: char where
  "NUL = CHR 0x00"

definition newline :: char where
  "newline = CHR 0x0A"

definition cstr :: "string \<Rightarrow> nat \<Rightarrow> string" where
  "cstr b p = takeWhile (\<lambda>c. c \<noteq> NUL) (drop p b)"

definition strchr :: "string \<Rightarrow> nat \<Rightarrow> char \<Rightarrow> nat option" where
  "strchr b p c =
     (let s = cstr b p
      in if c \<in> set s then Some (p + length (takeWhile (\<lambda>d. d \<noteq> c) s)) else None)"

text \<open>The delimiters of every \<open>strtok\<close> call of the source: \<open>" \t\n\r\f"\<close>.\<close>

definition is_delim :: "char \<Rightarrow> bool" where
  "is_delim c = (c \<in> set [CHR '' '', CHR 0x09, CHR 0x0A, CHR 0x0D, CHR 0x0C])"

text \<open>The set of every \<open>strspn\<close> call of the source: \<open>" \t\n\r"\<close>.\<close>

definition is_blank :: "char \<Rightarrow> bool" where
  "is_blank c = (c \<in> set [CHR '' '', CHR 0x09, CHR 0x0A, CHR 0x0D])"

text \<open>\<open>isspace\<close>, which \<open>atoi\<close>, \<open>atof\<close> and \<open>sscanf\<close> skip.\<close>

definition is_space :: "char \<Rightarrow> bool" where
  "is_space c = (c \<in> set [CHR '' '', CHR 0x09, CHR 0x0A, CHR 0x0B, CHR 0x0C, CHR 0x0D])"

definition is_digit :: "char \<Rightarrow> bool" where
  "is_digit c = (c \<in> set ''0123456789'')"

text \<open>
  \<open>strtok b p\<close> is one call of \<open>strtok\<close> that starts to scan at offset \<open>p\<close>
  (the argument of a first call, the saved pointer of a call with a null argument).
  It returns the buffer (with a NUL written over the delimiter that ends the token), the
  token (\<open>None\<close> for the null pointer) and the new saved pointer.
\<close>

definition strtok :: "string \<Rightarrow> nat \<Rightarrow> string \<times> string option \<times> nat" where
  "strtok b p =
     (let s = p + length (takeWhile is_delim (cstr b p));
          tok = takeWhile (\<lambda>c. \<not> is_delim c) (cstr b s);
          e = s + length tok
      in if tok = [] then (b, None, s)
         else if e < length b \<and> b ! e \<noteq> NUL then (b[e := NUL], Some tok, e + 1)
         else (b, Some tok, e))"

text \<open>The words of a string, as repeated calls of \<open>strtok\<close> cut them.\<close>

fun split_words :: "string \<Rightarrow> string \<Rightarrow> string list" where
  "split_words cur [] = (if cur = [] then [] else [cur])"
| "split_words cur (c # cs) =
     (if is_delim c then (if cur = [] then split_words [] cs else cur # split_words [] cs)
      else split_words (cur @ [c]) cs)"

definition digit_of :: "char \<Rightarrow> int" where
  "digit_of c = int (of_char c) - 48"

definition decimal :: "string \<Rightarrow> int" where
  "decimal ds = foldl (\<lambda>a c. 10 * a + digit_of c) 0 ds"

text \<open>
  An optional sign: the factor and the rest of the string.
\<close>

definition take_sign :: "string \<Rightarrow> int \<times> string" where
  "take_sign t =
     (case t of
        [] \<Rightarrow> (1, [])
      | c # r \<Rightarrow> if c = CHR ''-'' then (- 1, r) else if c = CHR ''+'' then (1, r) else (1, t))"

text \<open>
  The decimal integer at the head of a string (the conversion \<open>%d\<close>, and \<open>atoi\<close>):
  white space, an optional sign, digits. \<open>None\<close> when there is no digit. The value is
  taken to fit the C \<open>int\<close>.
\<close>

definition scan_int :: "string \<Rightarrow> int option" where
  "scan_int s =
     (let (sg, u) = take_sign (dropWhile is_space s);
          ds = takeWhile is_digit u
      in if ds = [] then None else Some (sg * decimal ds))"

definition atoi :: "string \<Rightarrow> int" where
  "atoi s = (case scan_int s of None \<Rightarrow> 0 | Some v \<Rightarrow> v)"

text \<open>\<open>sscanf(line,"%d",&v)\<close>: the variable keeps its value when nothing converts.\<close>

definition sscanf_d :: "string \<Rightarrow> int \<Rightarrow> int" where
  "sscanf_d s old = (case scan_int s of None \<Rightarrow> old | Some v \<Rightarrow> v)"

text \<open>
  \<open>atof\<close> on decimal notation: white space, an optional sign, digits with an optional
  fraction, an optional exponent. A \<open>double\<close> is idealised as a real number: the value is
  the exact decimal value, and the notations \<open>inf\<close>, \<open>nan\<close> and hexadecimal are not
  modelled.
\<close>

definition scan_exponent :: "string \<Rightarrow> int" where
  "scan_exponent r =
     (case r of
        [] \<Rightarrow> 0
      | c # r' \<Rightarrow>
          if c = CHR ''e'' \<or> c = CHR ''E''
          then (let (sg, u) = take_sign r'; ds = takeWhile is_digit u
                in if ds = [] then 0 else sg * decimal ds)
          else 0)"

definition pow10 :: "int \<Rightarrow> real" where
  "pow10 e = (if 0 \<le> e then 10 ^ nat e else 1 / 10 ^ nat (- e))"

definition atof :: "string \<Rightarrow> real" where
  "atof s =
     (let (sg, u) = take_sign (dropWhile is_space s);
          ip = takeWhile is_digit u;
          r1 = dropWhile is_digit u;
          fp = (case r1 of [] \<Rightarrow> [] | c # r \<Rightarrow> if c = CHR ''.'' then takeWhile is_digit r else []);
          r2 = (case r1 of [] \<Rightarrow> [] | c # r \<Rightarrow> if c = CHR ''.'' then dropWhile is_digit r else r1)
      in if ip = [] \<and> fp = [] then 0
         else of_int sg * (of_int (decimal (ip @ fp)) / 10 ^ length fp) * pow10 (scan_exponent r2))"

text \<open>
  \<open>count_words\<close> of the source: the words of the line before its first \<open>#\<close>.
\<close>

definition count_words :: "string \<Rightarrow> int" where
  "count_words l = int (length (split_words [] (takeWhile (\<lambda>c. c \<noteq> CHR ''#'') (cstr l 0))))"

text \<open>
  The loop of process 0 that appends \<open>nchunk\<close> lines to the buffer; \<open>None\<close> at the
  end of the file.
\<close>

fun fgets_chunk :: "nat \<Rightarrow> string list \<Rightarrow> (string \<times> string list) option" where
  "fgets_chunk 0 f = Some ([], f)"
| "fgets_chunk (Suc k) [] = None"
| "fgets_chunk (Suc k) (l # f) =
     (case fgets_chunk k f of None \<Rightarrow> None | Some (b, f') \<Rightarrow> Some (l @ b, f'))"


fun strstr :: "string \<Rightarrow> string \<Rightarrow> bool" where
  "strstr [] n = (n = [])"
| "strstr (c # cs) n = (take (length n) (c # cs) = n \<or> strstr cs n)"

section \<open>Data model\<close>

text \<open>
  A \<open>double\<close> is idealised as a real number throughout. A C \<open>int\<close> is an integer that
  is taken not to overflow.
\<close>

record point =
  x0 :: real
  x1 :: real
  x2 :: real

record line =
  line_id :: int
  line_p1 :: int
  line_p2 :: int

record tri =
  tri_id :: int
  tri_p1 :: int
  tri_p2 :: int
  tri_p3 :: int

type_synonym vec3 = "real \<times> real \<times> real"

text \<open>
  One constructor for each message of the source that ends the command
  (\<open>error->all\<close> and \<open>error->one\<close>); the validators' messages carry their count.
\<close>

datatype error =
    Cannot_read_surf_before_grid
  | Illegal_command
  | Invalid_command
  | Invalid_transformation_2d
  | Cannot_parse_Points
  | Cannot_parse_Lines
  | Cannot_parse_Triangles
  | Lines_in_3d
  | Triangles_in_2d
  | No_points
  | No_lines
  | No_triangles
  | Incorrect_point_format
  | Incorrect_line_format
  | Incorrect_triangle_format
  | Invalid_index_in_line
  | Invalid_index_in_triangle
  | Unexpected_end_of_data_file
  | Unexpected_end_of_surf_file
  | Cannot_open_gzipped_file
  | Cannot_open_file
  | Points_not_inside int
  | Point_pairs_too_close int
  | Lines_not_watertight int
  | Triangle_edges_not_watertight int

text \<open>The taxonomy of the specification, section 7.\<close>

datatype error_class = FormatError | GeometryError | TopologyError | ResourceError | CommandError

fun class_of :: "error \<Rightarrow> error_class" where
  "class_of Cannot_read_surf_before_grid = CommandError"
| "class_of Illegal_command = CommandError"
| "class_of Invalid_command = CommandError"
| "class_of Invalid_transformation_2d = GeometryError"
| "class_of Cannot_parse_Points = FormatError"
| "class_of Cannot_parse_Lines = FormatError"
| "class_of Cannot_parse_Triangles = FormatError"
| "class_of Lines_in_3d = FormatError"
| "class_of Triangles_in_2d = FormatError"
| "class_of No_points = FormatError"
| "class_of No_lines = FormatError"
| "class_of No_triangles = FormatError"
| "class_of Incorrect_point_format = FormatError"
| "class_of Incorrect_line_format = FormatError"
| "class_of Incorrect_triangle_format = FormatError"
| "class_of Invalid_index_in_line = FormatError"
| "class_of Invalid_index_in_triangle = FormatError"
| "class_of Unexpected_end_of_data_file = ResourceError"
| "class_of Unexpected_end_of_surf_file = ResourceError"
| "class_of Cannot_open_gzipped_file = ResourceError"
| "class_of Cannot_open_file = ResourceError"
| "class_of (Points_not_inside n) = GeometryError"
| "class_of (Point_pairs_too_close n) = GeometryError"
| "class_of (Lines_not_watertight n) = TopologyError"
| "class_of (Triangle_edges_not_watertight n) = TopologyError"

text \<open>
  The state that the command reads and writes: the grid and the domain (read only),
  the geometry store \<open>surf\<close>, the file system, and the members of \<open>ReadSurf\<close>.
  The model follows one process; every process holds the same replicated data.
\<close>

record st =
  grid_exist :: bool
  domain_dimension :: int
  boxlo :: vec3
  boxhi :: vec3
  xprd :: real
  yprd :: real
  zprd :: real
  surf_exist :: bool
  surf_ids :: "string list"
  surf_pts :: "point list"
  surf_lines :: "line list"
  surf_tris :: "tri list"
  surf_npoint :: int
  surf_nline :: int
  surf_ntri :: int
  surf_normals :: "(int \<times> int \<times> int) list"
  files :: "string \<Rightarrow> string list option"
  gzip_enabled :: bool
  fp :: "string list"
  compressed :: bool
  line :: string
  keyword :: string
  dimension :: int
  sid :: int
  pts :: "point list"
  lines :: "line list"
  tris :: "tri list"
  npoint_old :: int
  nline_old :: int
  ntri_old :: int
  npoint_new :: int
  nline_new :: int
  ntri_new :: int
  origin :: vec3

text \<open>
  The result of a piece of the command: it ran to its end (\<open>Done\<close>), it ended the
  program with a message (\<open>Abort\<close>, with the state at that moment), or the C program has
  no defined result there (\<open>NoResult\<close>: a null or out-of-range access, or a loop that
  does not end).
\<close>

datatype 'a outcome = Done 'a | Abort error 'a | NoResult

text \<open>Statements in sequence: the first that does not run to its end ends the command.\<close>

fun seq :: "('a \<Rightarrow> 'a outcome) list \<Rightarrow> 'a \<Rightarrow> 'a outcome" where
  "seq [] s = Done s"
| "seq (f # fs) s = (case f s of Done s' \<Rightarrow> seq fs s' | Abort e s' \<Rightarrow> Abort e s' | NoResult \<Rightarrow> NoResult)"

definition CHUNK :: int where
  "CHUNK = 1024"

definition EPSILON :: real where
  "EPSILON = 1 / 1000000"

section \<open>Ingestion\<close>

subsection \<open>header\<close>

definition header_checks :: "st \<Rightarrow> st outcome" where
  "header_checks s =
     (if npoint_new s = 0 then Abort No_points s
      else if dimension s = 2 \<and> nline_new s = 0 then Abort No_lines s
      else if dimension s = 3 \<and> ntri_new s = 0 then Abort No_triangles s
      else Done s)"

text \<open>
  The \<open>while (1)\<close> loop of \<open>header\<close> on the lines that are left in the file. At the
  end of the file the function returns with an empty line, without the checks that
  follow the loop.
\<close>

fun header_loop :: "st \<Rightarrow> string list \<Rightarrow> st outcome" where
  "header_loop s [] = Done (s\<lparr>line := [], fp := []\<rparr>)"
| "header_loop s (l # f) =
     (let cur = takeWhile (\<lambda>c. c \<noteq> CHR ''#'') (cstr l 0);
          s1 = s\<lparr>line := cur, fp := f\<rparr>
      in if list_all is_blank cur then header_loop s1 f
         else if strstr cur ''points''
           then header_loop (s1\<lparr>npoint_new := sscanf_d cur (npoint_new s1)\<rparr>) f
         else if strstr cur ''lines''
           then (if dimension s1 = 3 then Abort Lines_in_3d s1
                 else header_loop (s1\<lparr>nline_new := sscanf_d cur (nline_new s1)\<rparr>) f)
         else if strstr cur ''triangles''
           then (if dimension s1 = 2 then Abort Triangles_in_2d s1
                 else header_loop (s1\<lparr>ntri_new := sscanf_d cur (ntri_new s1)\<rparr>) f)
         else header_checks s1)"

definition header :: "st \<Rightarrow> st outcome" where
  "header s =
     (case fp s of
        [] \<Rightarrow> Abort Unexpected_end_of_data_file s
      | l # f \<Rightarrow> header_loop (s\<lparr>line := l, fp := f, npoint_new := 0, nline_new := 0, ntri_new := 0\<rparr>) f)"

subsection \<open>parse_keyword\<close>

text \<open>Read lines until one is not blank; \<open>None\<close> when a read hits the end of the file.\<close>

fun skip_blank :: "string \<Rightarrow> string list \<Rightarrow> (string \<times> string list) option" where
  "skip_blank cur [] = (if list_all is_blank (cstr cur 0) then None else Some (cur, []))"
| "skip_blank cur (l # f) = (if list_all is_blank (cstr cur 0) then skip_blank l f else Some (cur, l # f))"

definition trim :: "string \<Rightarrow> string" where
  "trim l = rev (dropWhile is_blank (rev (dropWhile is_blank l)))"

definition parse_keyword :: "bool \<Rightarrow> st \<Rightarrow> st outcome" where
  "parse_keyword first s =
     (let start = (if first then Some (line s, fp s)
                   else (case fp s of [] \<Rightarrow> None | l # f \<Rightarrow> Some (l, f)))
      in case (case start of None \<Rightarrow> None | Some (cur, f) \<Rightarrow> skip_blank cur f) of
           None \<Rightarrow> Done (s\<lparr>keyword := [], fp := []\<rparr>)
         | Some (cur, []) \<Rightarrow> Done (s\<lparr>keyword := [], fp := [], line := cur\<rparr>)
         | Some (cur, sep # f) \<Rightarrow> Done (s\<lparr>keyword := trim (cstr cur 0), fp := f, line := cur\<rparr>))"


subsection \<open>The bulk record readers\<close>

definition chunk_size :: "int \<Rightarrow> int \<Rightarrow> int" where
  "chunk_size n nread = (if n - nread > CHUNK then CHUNK else n - nread)"

text \<open>
  An array is a list; \<open>store_at\<close> writes element \<open>n\<close>, and a write outside the array
  has no defined result.
\<close>

definition store_at :: "'a list \<Rightarrow> int \<Rightarrow> 'a \<Rightarrow> 'a list option" where
  "store_at xs n v = (if 0 \<le> n \<and> n < int (length xs) then Some (xs[nat n := v]) else None)"

text \<open>
  The \<open>for\<close> loop of \<open>read_points\<close> over the records of one chunk. \<open>buf\<close> is the
  pointer to the current record (\<open>None\<close> once it was computed from a null \<open>next\<close>),
  \<open>n\<close> the index of the point to write. \<open>atof\<close> of a null token has no defined result.
\<close>

fun read_points_records ::
  "nat \<Rightarrow> int \<Rightarrow> string \<Rightarrow> nat option \<Rightarrow> int \<Rightarrow> point list \<Rightarrow> (point list \<times> int) option" where
  "read_points_records 0 dimn b buf n ps = Some (ps, n)"
| "read_points_records (Suc k) dimn b buf n ps =
     (case buf of
        None \<Rightarrow> None
      | Some p \<Rightarrow>
          (let next = strchr b p newline;
               (b1, t0, s1) = strtok b p;
               (b2, t1, s2) = strtok b1 s1;
               (b3, t2, s3) = strtok b2 s2;
               (b4, t3, s4) = (if dimn = 3 then strtok b3 s3 else (b3, Some ''0'', s3))
           in case (t1, t2, t3) of
                (Some tx, Some ty, Some tz) \<Rightarrow>
                  (case store_at ps n \<lparr>x0 = atof tx, x1 = atof ty, x2 = (if dimn = 3 then atof tz else 0)\<rparr> of
                     None \<Rightarrow> None
                   | Some ps' \<Rightarrow> read_points_records k dimn b4 (map_option Suc next) (n + 1) ps')
              | _ \<Rightarrow> None))"

text \<open>The \<open>while\<close> loop of \<open>read_points\<close>, one chunk for each turn.\<close>

function read_points_loop :: "int \<Rightarrow> int \<Rightarrow> st \<Rightarrow> st outcome" where
  "read_points_loop n nread s =
     (if nread < npoint_new s then
        (let nchunk = chunk_size (npoint_new s) nread
         in case fgets_chunk (nat nchunk) (fp s) of
              None \<Rightarrow> Abort Unexpected_end_of_surf_file s
            | Some (buffer, f) \<Rightarrow>
                (case strchr buffer 0 newline of
                   None \<Rightarrow> NoResult
                 | Some next \<Rightarrow>
                     (let nwords = count_words (take next buffer)
                      in if dimension s = 2 \<and> nwords \<noteq> 3 then Abort Incorrect_point_format (s\<lparr>fp := f\<rparr>)
                         else if dimension s = 3 \<and> nwords \<noteq> 4 then Abort Incorrect_point_format (s\<lparr>fp := f\<rparr>)
                         else (case read_points_records (nat nchunk) (dimension s) buffer (Some 0) n (pts s) of
                                 None \<Rightarrow> NoResult
                               | Some (ps, n') \<Rightarrow>
                                   read_points_loop n' (nread + nchunk) (s\<lparr>fp := f, pts := ps\<rparr>)))))
      else Done s)"
  by pat_completeness auto
termination
  by (relation "measure (\<lambda>(n, nread, s). nat (npoint_new s - nread))")
    (auto simp: chunk_size_def CHUNK_def split: if_splits)

definition read_points :: "st \<Rightarrow> st outcome" where
  "read_points s = read_points_loop (npoint_old s) 0 s"

text \<open>The \<open>for\<close> loop of \<open>read_lines\<close> over the records of one chunk.\<close>

fun read_lines_records ::
  "nat \<Rightarrow> int \<Rightarrow> int \<Rightarrow> int \<Rightarrow> string \<Rightarrow> nat option \<Rightarrow> int \<Rightarrow> line list
     \<Rightarrow> (error + line list \<times> int) option" where
  "read_lines_records 0 i np_new np_old b buf n ls = Some (Inr (ls, n))"
| "read_lines_records (Suc k) i np_new np_old b buf n ls =
     (case buf of
        None \<Rightarrow> None
      | Some p \<Rightarrow>
          (let next = strchr b p newline;
               (b1, t0, s1) = strtok b p;
               (b2, t1, s2) = strtok b1 s1;
               (b3, t2, s3) = strtok b2 s2
           in case (t1, t2) of
                (Some w1, Some w2) \<Rightarrow>
                  (let p1 = atoi w1; p2 = atoi w2
                   in if p1 < 1 \<or> p1 > np_new \<or> p2 < 1 \<or> p2 > np_new \<or> p1 = p2
                      then Some (Inl Invalid_index_in_line)
                      else (case store_at ls n \<lparr>line_id = i, line_p1 = p1 - 1 + np_old, line_p2 = p2 - 1 + np_old\<rparr> of
                              None \<Rightarrow> None
                            | Some ls' \<Rightarrow>
                                read_lines_records k i np_new np_old b3 (map_option Suc next) (n + 1) ls'))
              | _ \<Rightarrow> None))"

function read_lines_loop :: "int \<Rightarrow> int \<Rightarrow> st \<Rightarrow> st outcome" where
  "read_lines_loop n nread s =
     (if nread < nline_new s then
        (let nchunk = chunk_size (nline_new s) nread
         in case fgets_chunk (nat nchunk) (fp s) of
              None \<Rightarrow> Abort Unexpected_end_of_surf_file s
            | Some (buffer, f) \<Rightarrow>
                (case strchr buffer 0 newline of
                   None \<Rightarrow> NoResult
                 | Some next \<Rightarrow>
                     (let nwords = count_words (take next buffer)
                      in if nwords \<noteq> 3 then Abort Incorrect_line_format (s\<lparr>fp := f\<rparr>)
                         else (case read_lines_records (nat nchunk) (sid s) (npoint_new s) (npoint_old s)
                                      buffer (Some 0) n (lines s) of
                                 None \<Rightarrow> NoResult
                               | Some (Inl e) \<Rightarrow> Abort e (s\<lparr>fp := f\<rparr>)
                               | Some (Inr (ls, n')) \<Rightarrow>
                                   read_lines_loop n' (nread + nchunk) (s\<lparr>fp := f, lines := ls\<rparr>)))))
      else Done s)"
  by pat_completeness auto
termination
  by (relation "measure (\<lambda>(n, nread, s). nat (nline_new s - nread))")
    (auto simp: chunk_size_def CHUNK_def split: if_splits)

definition read_lines :: "st \<Rightarrow> st outcome" where
  "read_lines s = read_lines_loop (nline_old s) 0 s"

text \<open>The \<open>for\<close> loop of \<open>read_tris\<close> over the records of one chunk.\<close>

fun read_tris_records ::
  "nat \<Rightarrow> int \<Rightarrow> int \<Rightarrow> int \<Rightarrow> string \<Rightarrow> nat option \<Rightarrow> int \<Rightarrow> tri list
     \<Rightarrow> (error + tri list \<times> int) option" where
  "read_tris_records 0 i np_new np_old b buf n ts = Some (Inr (ts, n))"
| "read_tris_records (Suc k) i np_new np_old b buf n ts =
     (case buf of
        None \<Rightarrow> None
      | Some p \<Rightarrow>
          (let next = strchr b p newline;
               (b1, t0, s1) = strtok b p;
               (b2, t1, s2) = strtok b1 s1;
               (b3, t2, s3) = strtok b2 s2;
               (b4, t3, s4) = strtok b3 s3
           in case (t1, t2, t3) of
                (Some w1, Some w2, Some w3) \<Rightarrow>
                  (let p1 = atoi w1; p2 = atoi w2; p3 = atoi w3
                   in if p1 < 1 \<or> p1 > np_new \<or> p2 < 1 \<or> p2 > np_new \<or>
                         p3 < 1 \<or> p3 > np_new \<or> p1 = p2 \<or> p2 = p3
                      then Some (Inl Invalid_index_in_triangle)
                      else (case store_at ts n
                                   \<lparr>tri_id = i, tri_p1 = p1 - 1 + np_old, tri_p2 = p2 - 1 + np_old,
                                    tri_p3 = p3 - 1 + np_old\<rparr> of
                              None \<Rightarrow> None
                            | Some ts' \<Rightarrow>
                                read_tris_records k i np_new np_old b4 (map_option Suc next) (n + 1) ts'))
              | _ \<Rightarrow> None))"

function read_tris_loop :: "int \<Rightarrow> int \<Rightarrow> st \<Rightarrow> st outcome" where
  "read_tris_loop n nread s =
     (if nread < ntri_new s then
        (let nchunk = chunk_size (ntri_new s) nread
         in case fgets_chunk (nat nchunk) (fp s) of
              None \<Rightarrow> Abort Unexpected_end_of_surf_file s
            | Some (buffer, f) \<Rightarrow>
                (case strchr buffer 0 newline of
                   None \<Rightarrow> NoResult
                 | Some next \<Rightarrow>
                     (let nwords = count_words (take next buffer)
                      in if nwords \<noteq> 4 then Abort Incorrect_triangle_format (s\<lparr>fp := f\<rparr>)
                         else (case read_tris_records (nat nchunk) (sid s) (npoint_new s) (npoint_old s)
                                      buffer (Some 0) n (tris s) of
                                 None \<Rightarrow> NoResult
                               | Some (Inl e) \<Rightarrow> Abort e (s\<lparr>fp := f\<rparr>)
                               | Some (Inr (ts, n')) \<Rightarrow>
                                   read_tris_loop n' (nread + nchunk) (s\<lparr>fp := f, tris := ts\<rparr>)))))
      else Done s)"
  by pat_completeness auto
termination
  by (relation "measure (\<lambda>(n, nread, s). nat (ntri_new s - nread))")
    (auto simp: chunk_size_def CHUNK_def split: if_splits)

definition read_tris :: "st \<Rightarrow> st outcome" where
  "read_tris s = read_tris_loop (ntri_old s) 0 s"


subsection \<open>open\<close>

text \<open>
  \<open>files\<close> gives the lines of a readable file (of a compressed one, the lines that
  \<open>gunzip\<close> writes); \<open>gzip_enabled\<close> is the compile-time switch \<open>LAMMPS_GZIP\<close>.
\<close>

definition open_file :: "string \<Rightarrow> st \<Rightarrow> st outcome" where
  "open_file file s =
     (let comp = (length file > 3 \<and> drop (length file - 3) file = ''.gz'');
          s1 = s\<lparr>compressed := comp\<rparr>
      in if comp \<and> \<not> gzip_enabled s then Abort Cannot_open_gzipped_file s1
         else (case files s file of
                 None \<Rightarrow> Abort Cannot_open_file s1
               | Some f \<Rightarrow> Done (s1\<lparr>fp := f\<rparr>)))"

section \<open>Transform pipeline\<close>

text \<open>
  The indices \<open>m = old, old + 1, ...\<close> that a loop \<open>for (i = 0; i < new; i++)\<close> over
  the new block visits. The arrays were allocated with \<open>old + new\<close> elements, so these
  indices are inside them.
\<close>

definition block :: "int \<Rightarrow> int \<Rightarrow> nat list" where
  "block old new = [nat old ..< nat old + nat new]"

definition translate :: "real \<Rightarrow> real \<Rightarrow> real \<Rightarrow> st \<Rightarrow> st" where
  "translate dx dy dz s =
     s\<lparr>pts := fold (\<lambda>m ps. ps[m := \<lparr>x0 = x0 (ps ! m) + dx, x1 = x1 (ps ! m) + dy, x2 = x2 (ps ! m) + dz\<rparr>])
                (block (npoint_old s) (npoint_new s)) (pts s)\<rparr>"

definition scale :: "real \<Rightarrow> real \<Rightarrow> real \<Rightarrow> st \<Rightarrow> st" where
  "scale sx sy sz s =
     (let (o0, o1, o2) = origin s
      in s\<lparr>pts := fold (\<lambda>m ps. ps[m := \<lparr>x0 = sx * (x0 (ps ! m) - o0) + o0,
                                          x1 = sy * (x1 (ps ! m) - o1) + o1,
                                          x2 = (if dimension s = 3 then sz * (x2 (ps ! m) - o2) + o2
                                                else x2 (ps ! m))\<rparr>])
                   (block (npoint_old s) (npoint_new s)) (pts s)\<rparr>)"

text \<open>
  Modelled from the spec: the functions \<open>norm3\<close>, \<open>axisangle_to_quat\<close>, \<open>quat_to_mat\<close>
  and \<open>matvec\<close> of \<open>math_extra.h\<close> are not among the sources. The specification says:
  normalize the axis, build the rotation via axis-angle, quaternion, 3 by 3 matrix.
\<close>

definition norm3 :: "vec3 \<Rightarrow> vec3" where
  "norm3 v =
     (let (a, b, c) = v; k = 1 / sqrt (a * a + b * b + c * c)
      in (a * k, b * k, c * k))"

definition axisangle_to_quat :: "vec3 \<Rightarrow> real \<Rightarrow> real \<times> real \<times> real \<times> real" where
  "axisangle_to_quat v angle =
     (let (a, b, c) = v; halfa = angle / 2; sina = sin halfa
      in (cos halfa, a * sina, b * sina, c * sina))"

definition quat_to_mat :: "real \<times> real \<times> real \<times> real \<Rightarrow> vec3 \<times> vec3 \<times> vec3" where
  "quat_to_mat q =
     (let (w, i, j, k) = q
      in ((w * w + i * i - j * j - k * k, 2 * i * j - 2 * k * w, 2 * j * w + 2 * i * k),
          (2 * i * j + 2 * k * w, w * w - i * i + j * j - k * k, 2 * j * k - 2 * i * w),
          (2 * i * k - 2 * j * w, 2 * j * k + 2 * i * w, w * w - i * i - j * j + k * k)))"

definition matvec :: "vec3 \<times> vec3 \<times> vec3 \<Rightarrow> vec3 \<Rightarrow> vec3" where
  "matvec m v =
     (let ((a00, a01, a02), (a10, a11, a12), (a20, a21, a22)) = m; (v0, v1, v2) = v
      in (a00 * v0 + a01 * v1 + a02 * v2, a10 * v0 + a11 * v1 + a12 * v2,
          a20 * v0 + a21 * v1 + a22 * v2))"

text \<open>
  \<open>rotate\<close>. With a zero axis the normalisation divides by zero and the C program computes
  with values that are no real numbers; the model has no result there.
\<close>

definition rotate :: "real \<Rightarrow> real \<Rightarrow> real \<Rightarrow> real \<Rightarrow> st \<Rightarrow> st outcome" where
  "rotate theta rx ry rz s =
     (if rx * rx + ry * ry + rz * rz = 0 then NoResult
      else
        (let rotmat = quat_to_mat (axisangle_to_quat (norm3 (rx, ry, rz)) theta);
             (o0, o1, o2) = origin s
         in Done (s\<lparr>pts := fold (\<lambda>m ps.
                      (let (n0, n1, n2) = matvec rotmat (x0 (ps ! m) - o0, x1 (ps ! m) - o1, x2 (ps ! m) - o2)
                       in ps[m := \<lparr>x0 = n0 + o0, x1 = n1 + o1,
                                   x2 = (if dimension s = 3 then n2 + o2 else x2 (ps ! m))\<rparr>]))
                    (block (npoint_old s) (npoint_new s)) (pts s)\<rparr>)))"

definition invert :: "st \<Rightarrow> st" where
  "invert s =
     (let s1 = (if dimension s = 2
                then s\<lparr>lines := fold (\<lambda>m ls. ls[m := (ls ! m)\<lparr>line_p1 := line_p2 (ls ! m),
                                                             line_p2 := line_p1 (ls ! m)\<rparr>])
                               (block (nline_old s) (nline_new s)) (lines s)\<rparr>
                else s)
      in if dimension s1 = 3
         then s1\<lparr>tris := fold (\<lambda>m ts. ts[m := (ts ! m)\<lparr>tri_p2 := tri_p3 (ts ! m),
                                                      tri_p3 := tri_p2 (ts ! m)\<rparr>])
                         (block (ntri_old s1) (nline_new s1)) (tris s1)\<rparr>
         else s1)"

text \<open>
  One turn of the loop over the optional keywords of the command: \<open>args\<close> are the
  arguments from \<open>arg[iarg]\<close> on, so that \<open>iarg + 4 > narg\<close> is \<open>length args < 4\<close>.
\<close>

definition directive :: "string list \<Rightarrow> st \<Rightarrow> st outcome" where
  "directive args s =
     (let a = hd args
      in if a = ''origin'' then
           (if length args < 4 then Abort Invalid_command s
            else (let ox = atof (args ! 1); oy = atof (args ! 2); oz = atof (args ! 3)
                  in if dimension s = 2 \<and> oz \<noteq> 0 then Abort Invalid_transformation_2d s
                     else Done (s\<lparr>origin := (ox, oy, oz)\<rparr>)))
         else if a = ''trans'' then
           (if length args < 4 then Abort Invalid_command s
            else (let dx = atof (args ! 1); dy = atof (args ! 2); dz = atof (args ! 3)
                  in if dimension s = 2 \<and> dz \<noteq> 0 then Abort Invalid_transformation_2d s
                     else (let (o0, o1, o2) = origin s
                           in Done (translate dx dy dz (s\<lparr>origin := (o0 + dx, o1 + dy, o2 + dz)\<rparr>)))))
         else if a = ''atrans'' then
           (if length args < 4 then Abort Invalid_command s
            else (let ax = atof (args ! 1); ay = atof (args ! 2); az = atof (args ! 3)
                  in if dimension s = 2 \<and> az \<noteq> 0 then Abort Invalid_transformation_2d s
                     else (let (o0, o1, o2) = origin s
                           in Done (translate (ax - o0) (ay - o1) (az - o2) (s\<lparr>origin := (ax, ay, az)\<rparr>)))))
         else if a = ''ftrans'' then
           (if length args < 4 then Abort Invalid_command s
            else (let fx = atof (args ! 1); fy = atof (args ! 2); fz = atof (args ! 3)
                  in if dimension s = 2 \<and> fz \<noteq> 1 / 2 then Abort Invalid_transformation_2d s
                     else (let (lo0, lo1, lo2) = boxlo s;
                               ax = lo0 + fx * xprd s;
                               ay = lo1 + fy * yprd s;
                               az = (if dimension s = 3 then lo2 + fz * zprd s else 0);
                               (o0, o1, o2) = origin s
                           in Done (translate (ax - o0) (ay - o1) (az - o2) (s\<lparr>origin := (ax, ay, az)\<rparr>)))))
         else if a = ''scale'' then
           (if length args < 4 then Abort Invalid_command s
            else (let sx = atof (args ! 1); sy = atof (args ! 2); sz = atof (args ! 3)
                  in if dimension s = 2 \<and> sz \<noteq> 1 then Abort Invalid_transformation_2d s
                     else Done (scale sx sy sz s)))
         else if a = ''rotate'' then
           (if length args < 5 then Abort Invalid_command s
            else (let theta = atof (args ! 1); rx = atof (args ! 2); ry = atof (args ! 3);
                      rz = atof (args ! 4)
                  in if dimension s = 2 \<and> (rx \<noteq> 0 \<or> ry \<noteq> 0 \<or> rz \<noteq> 1)
                     then Abort Invalid_transformation_2d s
                     else if rx = 0 \<and> ry = 0 \<and> rz = 0 then Abort Invalid_transformation_2d s
                     else rotate theta rx ry rz s))
         else if a = ''invert'' then Done (invert s)
         else Abort Invalid_command s)"

definition directive_width :: "string \<Rightarrow> nat" where
  "directive_width a = (if a = ''rotate'' then 5 else if a = ''invert'' then 1 else 4)"

function transforms :: "string list \<Rightarrow> st \<Rightarrow> st outcome" where
  "transforms args s =
     (if args = [] then Done s
      else (case directive args s of
              Done s' \<Rightarrow> transforms (drop (directive_width (hd args)) args) s'
            | Abort e s' \<Rightarrow> Abort e s'
            | NoResult \<Rightarrow> NoResult))"
  by pat_completeness auto
termination
  by (relation "measure (\<lambda>(args, s). length args)") (auto simp: directive_width_def)


section \<open>Validators\<close>

subsection \<open>check_point_inside\<close>

definition not_inside :: "vec3 \<Rightarrow> vec3 \<Rightarrow> point \<Rightarrow> bool" where
  "not_inside lo hi p =
     (let (lo0, lo1, lo2) = lo; (hi0, hi1, hi2) = hi
      in x0 p \<le> lo0 \<or> x0 p \<ge> hi0 \<or> x1 p \<le> lo1 \<or> x1 p \<ge> hi1 \<or> x2 p \<le> lo2 \<or> x2 p \<ge> hi2)"

definition count_not_inside :: "st \<Rightarrow> int" where
  "count_not_inside s =
     fold (\<lambda>m nbad. if not_inside (boxlo s) (boxhi s) (pts s ! m) then nbad + 1 else nbad)
       (block (npoint_old s) (npoint_new s)) 0"

definition check_point_inside :: "st \<Rightarrow> st outcome" where
  "check_point_inside s =
     (let nbad = count_not_inside s
      in if nbad \<noteq> 0 then Abort (Points_not_inside nbad) s else Done s)"

subsection \<open>check_point_pairs\<close>

text \<open>\<open>static_cast<int>\<close> of a \<open>double\<close> rounds toward zero.\<close>

definition trunc :: "real \<Rightarrow> int" where
  "trunc x = (if 0 \<le> x then \<lfloor>x\<rfloor> else \<lceil>x\<rceil>)"

text \<open>
  The numbers of bins and the bin sizes. Where the volume for each point is not positive or
  a bin size is zero, the C program converts a NaN or an infinity to \<open>int\<close>, which is
  undefined: the model has no result there.
\<close>

definition bin_setup :: "st \<Rightarrow> ((int \<times> int \<times> int) \<times> vec3) option" where
  "bin_setup s =
     (let vol_per_point =
            (if dimension s = 2 then xprd s * yprd s / of_int (npoint_new s)
             else xprd s * yprd s * zprd s / of_int (npoint_new s))
      in if vol_per_point \<le> 0 then None
         else
           (let bin0 = (if dimension s = 2 then sqrt vol_per_point else vol_per_point powr (1 / 3));
                nx0 = trunc (xprd s / bin0);
                ny0 = trunc (yprd s / bin0);
                nz0 = (if dimension s = 2 then 1 else trunc (zprd s / bin0));
                nx1 = (if nx0 = 0 then 1 else nx0);
                ny1 = (if ny0 = 0 then 1 else ny0);
                nz1 = (if nz0 = 0 then 1 else nz0);
                nbinx = (if nx1 > 1 then nx1 + 1 else nx1);
                nbiny = (if ny1 > 1 then ny1 + 1 else ny1);
                nbinz = (if nz1 > 1 then nz1 + 1 else nz1);
                xbin = xprd s / of_int nbinx;
                ybin = yprd s / of_int nbiny;
                zbin = zprd s / of_int nbinz
            in if xbin = 0 \<or> ybin = 0 \<or> zbin = 0 then None
               else Some ((nbinx, nbiny, nbinz), (xbin, ybin, zbin))))"

text \<open>
  One binning loop. \<open>binhead\<close> is the three-dimensional array of \<open>nbinx\<close> by \<open>nbiny\<close>
  by \<open>nbinz\<close> heads, \<open>bin\<close> the array of \<open>npoint_new\<close> links, which the source indexes
  with the index \<open>m\<close> of the point in the whole point array. An index outside either
  array has no defined result.
\<close>

fun bin_points ::
  "point list \<Rightarrow> int \<times> int \<times> int \<Rightarrow> vec3 \<Rightarrow> vec3 \<Rightarrow> nat list
     \<Rightarrow> (int \<times> int \<times> int \<Rightarrow> int) \<Rightarrow> int list \<Rightarrow> ((int \<times> int \<times> int \<Rightarrow> int) \<times> int list) option" where
  "bin_points ps nb org sz [] binhead bin = Some (binhead, bin)"
| "bin_points ps nb org sz (m # ms) binhead bin =
     (let (nbinx, nbiny, nbinz) = nb; (g0, g1, g2) = org; (xbin, ybin, zbin) = sz;
          ix = trunc ((x0 (ps ! m) - g0) * (1 / xbin));
          iy = trunc ((x1 (ps ! m) - g1) * (1 / ybin));
          iz = trunc ((x2 (ps ! m) - g2) * (1 / zbin))
      in if 0 \<le> ix \<and> ix < nbinx \<and> 0 \<le> iy \<and> iy < nbiny \<and> 0 \<le> iz \<and> iz < nbinz \<and> m < length bin
         then bin_points ps nb org sz ms (binhead((ix, iy, iz) := int m)) (bin[m := binhead (ix, iy, iz)])
         else None)"

text \<open>
  The two \<open>while\<close> loops that walk the chain of one bin. They follow the links of \<open>bin\<close>
  and may not end on an arbitrary array: \<open>None\<close> is a walk that does not return, or
  that leaves an array.
\<close>

partial_function (option) pairs_inner ::
  "point list \<Rightarrow> int list \<Rightarrow> real \<Rightarrow> int \<Rightarrow> int \<Rightarrow> int \<Rightarrow> int option" where
  "pairs_inner ps bin epssq m n nbad =
     (if n \<ge> 0 then
        (if nat n < length bin \<and> nat n < length ps \<and> nat m < length ps then
           (let dx = x0 (ps ! nat m) - x0 (ps ! nat n);
                dy = x1 (ps ! nat m) - x1 (ps ! nat n);
                dz = x2 (ps ! nat m) - x2 (ps ! nat n);
                rsq = dx * dx + dy * dy + dz * dz
            in pairs_inner ps bin epssq m (bin ! nat n) (if rsq < epssq then nbad + 1 else nbad))
         else None)
      else Some nbad)"

partial_function (option) pairs_outer ::
  "point list \<Rightarrow> int list \<Rightarrow> real \<Rightarrow> int \<Rightarrow> int \<Rightarrow> int option" where
  "pairs_outer ps bin epssq m nbad =
     (if m \<ge> 0 then
        (if nat m < length bin then
           Option.bind (pairs_inner ps bin epssq m (bin ! nat m) nbad)
             (\<lambda>nbad'. pairs_outer ps bin epssq (bin ! nat m) nbad')
         else None)
      else Some nbad)"

text \<open>The bins in the order of the three nested \<open>for\<close> loops.\<close>

definition cells :: "int \<times> int \<times> int \<Rightarrow> (int \<times> int \<times> int) list" where
  "cells nb =
     (let (nbinx, nbiny, nbinz) = nb
      in concat (map (\<lambda>i. concat (map (\<lambda>j. map (\<lambda>k. (i, j, k)) [0..nbinz - 1]) [0..nbiny - 1]))
                   [0..nbinx - 1]))"

fun pairs_bins ::
  "point list \<Rightarrow> int list \<Rightarrow> real \<Rightarrow> (int \<times> int \<times> int \<Rightarrow> int) \<Rightarrow> (int \<times> int \<times> int) list
     \<Rightarrow> int \<Rightarrow> int option" where
  "pairs_bins ps bin epssq binhead [] nbad = Some nbad"
| "pairs_bins ps bin epssq binhead (c # cs) nbad =
     Option.bind (pairs_outer ps bin epssq (binhead c) nbad) (pairs_bins ps bin epssq binhead cs)"

text \<open>One pass: bin the new points from the given origin, then count the close pairs.\<close>

definition binning_pass :: "st \<Rightarrow> int \<times> int \<times> int \<Rightarrow> vec3 \<Rightarrow> vec3 \<Rightarrow> real \<Rightarrow> int option" where
  "binning_pass s nb org sz epssq =
     (case bin_points (pts s) nb org sz (block (npoint_old s) (npoint_new s)) (\<lambda>c. - 1)
             (replicate (nat (npoint_new s)) 0) of
        None \<Rightarrow> None
      | Some (binhead, bin) \<Rightarrow> pairs_bins (pts s) bin epssq binhead (cells nb) 0)"

definition check_point_pairs :: "st \<Rightarrow> st outcome" where
  "check_point_pairs s =
     (let eps0 = min (xprd s) (yprd s);
          eps1 = (if dimension s = 3 then min eps0 (zprd s) else eps0);
          epsilon = eps1 * EPSILON;
          epssq = epsilon * epsilon
      in case bin_setup s of
           None \<Rightarrow> NoResult
         | Some (nb, sz) \<Rightarrow>
             (case binning_pass s nb (boxlo s) sz epssq of
                None \<Rightarrow> NoResult
              | Some nbad1 \<Rightarrow>
                  if nbad1 \<noteq> 0 then Abort (Point_pairs_too_close nbad1) s
                  else
                    (let (nbinx, nbiny, nbinz) = nb; (xbin, ybin, zbin) = sz; (lo0, lo1, lo2) = boxlo s;
                         org = (if nbinx = 1 then lo0 else lo0 - xbin / 2,
                                if nbiny = 1 then lo1 else lo1 - ybin / 2,
                                if nbinz = 1 then lo2 else lo2 - zbin / 2)
                     in case binning_pass s nb org sz epssq of
                          None \<Rightarrow> NoResult
                        | Some nbad2 \<Rightarrow>
                            if nbad2 \<noteq> 0 then Abort (Point_pairs_too_close nbad2) s else Done s)))"


subsection \<open>check_watertight_2d\<close>

text \<open>\<open>a[i]++\<close> on an array of counters; outside the array there is no defined result.\<close>

definition incr :: "int list \<Rightarrow> int \<Rightarrow> int list option" where
  "incr a i = (if 0 \<le> i \<and> i < int (length a) then Some (a[nat i := a ! nat i + 1]) else None)"

fun tally_ends :: "line list \<Rightarrow> int \<Rightarrow> nat list \<Rightarrow> int list \<Rightarrow> int list option" where
  "tally_ends ls old [] count = Some count"
| "tally_ends ls old (m # ms) count =
     (let p1 = line_p1 (ls ! m) - old; p2 = line_p2 (ls ! m) - old
      in case incr count p1 of
           None \<Rightarrow> None
         | Some c1 \<Rightarrow> (case incr c1 p2 of None \<Rightarrow> None | Some c2 \<Rightarrow> tally_ends ls old ms c2))"

definition count_not_2 :: "int list \<Rightarrow> int \<Rightarrow> int" where
  "count_not_2 count n = fold (\<lambda>i nbad. if count ! i \<noteq> 2 then nbad + 1 else nbad) [0..<nat n] 0"

definition check_watertight_2d :: "st \<Rightarrow> st outcome" where
  "check_watertight_2d s =
     (case tally_ends (lines s) (npoint_old s) (block (nline_old s) (nline_new s))
             (replicate (nat (npoint_new s)) 0) of
        None \<Rightarrow> NoResult
      | Some count \<Rightarrow>
          (let nbad = count_not_2 count (npoint_new s)
           in if nbad \<noteq> 0 then Abort (Lines_not_watertight nbad) s else Done s))"

subsection \<open>check_watertight_3d\<close>

fun tally_ecountmax :: "tri list \<Rightarrow> int \<Rightarrow> nat list \<Rightarrow> int list \<Rightarrow> int list option" where
  "tally_ecountmax ts old [] ecountmax = Some ecountmax"
| "tally_ecountmax ts old (m # ms) ecountmax =
     (let p1 = tri_p1 (ts ! m) - old; p2 = tri_p2 (ts ! m) - old; p3 = tri_p3 (ts ! m) - old
      in case incr ecountmax (min p1 p2) of
           None \<Rightarrow> None
         | Some e1 \<Rightarrow>
             (case incr e1 (min p2 p3) of
                None \<Rightarrow> None
              | Some e2 \<Rightarrow>
                  (case incr e2 (min p3 p1) of
                     None \<Rightarrow> None
                   | Some e3 \<Rightarrow> tally_ecountmax ts old ms e3)))"

text \<open>
  The adjacency arrays of the second loop: \<open>ecount\<close>, the ragged arrays \<open>edge\<close> and
  \<open>count\<close> (row \<open>i\<close> has \<open>ecountmax[i]\<close> elements), and the tally \<open>nbad1\<close>.
\<close>

record adjacency =
  ecount :: "int list"
  edge :: "int list list"
  count :: "int list list"
  nbad1 :: int

text \<open>
  One edge of a triangle, between the points \<open>pa\<close> and \<open>pb\<close>: scan the row of the lower
  point, then count the edge, or append it, or tally a failure when the row is full.
\<close>

definition add_edge :: "int list \<Rightarrow> int \<Rightarrow> int \<Rightarrow> adjacency \<Rightarrow> adjacency option" where
  "add_edge ecountmax pa pb a =
     (let pi = min pa pb; pj = max pa pb
      in if 0 \<le> pi \<and> pi < int (length (ecount a)) then
           (let i = nat pi;
                j = length (takeWhile (\<lambda>e. e \<noteq> pj) (take (nat (ecount a ! i)) (edge a ! i)))
            in if int j = ecount a ! i then
                 (if ecount a ! i = ecountmax ! i then Some (a\<lparr>nbad1 := nbad1 a + 1\<rparr>)
                  else Some (a\<lparr>edge := (edge a)[i := (edge a ! i)[j := pj]],
                              count := (count a)[i := (count a ! i)[j := 1]],
                              ecount := (ecount a)[i := ecount a ! i + 1]\<rparr>))
               else Some (a\<lparr>count := (count a)[i := (count a ! i)[j := count a ! i ! j + 1]]\<rparr>))
         else None)"

fun tally_edges :: "tri list \<Rightarrow> int \<Rightarrow> int list \<Rightarrow> nat list \<Rightarrow> adjacency \<Rightarrow> adjacency option" where
  "tally_edges ts old ecountmax [] a = Some a"
| "tally_edges ts old ecountmax (m # ms) a =
     (let p1 = tri_p1 (ts ! m) - old; p2 = tri_p2 (ts ! m) - old; p3 = tri_p3 (ts ! m) - old
      in case add_edge ecountmax p1 p2 a of
           None \<Rightarrow> None
         | Some a1 \<Rightarrow>
             (case add_edge ecountmax p2 p3 a1 of
                None \<Rightarrow> None
              | Some a2 \<Rightarrow>
                  (case add_edge ecountmax p3 p1 a2 of
                     None \<Rightarrow> None
                   | Some a3 \<Rightarrow> tally_edges ts old ecountmax ms a3)))"

definition count_not_2_or_4 :: "adjacency \<Rightarrow> int \<Rightarrow> int" where
  "count_not_2_or_4 a n =
     fold (\<lambda>i nbad2.
             fold (\<lambda>j nbad2. if count a ! i ! j \<noteq> 2 \<and> count a ! i ! j \<noteq> 4 then nbad2 + 1 else nbad2)
               [0..<nat (ecount a ! i)] nbad2)
       [0..<nat n] 0"

definition check_watertight_3d :: "st \<Rightarrow> st outcome" where
  "check_watertight_3d s =
     (case tally_ecountmax (tris s) (npoint_old s) (block (ntri_old s) (ntri_new s))
             (replicate (nat (npoint_new s)) 0) of
        None \<Rightarrow> NoResult
      | Some ecm \<Rightarrow>
          (let ecountmax = map (\<lambda>e. e div 2) ecm;
               a0 = \<lparr>ecount = replicate (nat (npoint_new s)) 0,
                     edge = map (\<lambda>e. replicate (nat e) 0) ecountmax,
                     count = map (\<lambda>e. replicate (nat e) 0) ecountmax,
                     nbad1 = 0\<rparr>
           in case tally_edges (tris s) (npoint_old s) ecountmax (block (ntri_old s) (ntri_new s)) a0 of
                None \<Rightarrow> NoResult
              | Some a \<Rightarrow>
                  (let nbad2 = count_not_2_or_4 a (npoint_new s);
                       nbad = nbad1 a + nbad2
                   in if nbad \<noteq> 0 then Abort (Triangle_edges_not_watertight nbad) s else Done s)))"

section \<open>The command\<close>

text \<open>
  Modelled from the spec: \<open>Surf::add_id\<close> is not among the sources; the specification only
  says that every entity carries the id of its owning surface. The model registers the
  name and returns its position.
\<close>

definition add_id :: "string \<Rightarrow> st \<Rightarrow> st" where
  "add_id name s = s\<lparr>sid := int (length (surf_ids s)), surf_ids := surf_ids s @ [name]\<rparr>"

text \<open>
  \<open>memory->srealloc\<close> to \<open>n\<close> elements: the old elements stay, the new ones are
  indeterminate in C and are filled here with a fixed value that every reader overwrites.
\<close>

definition srealloc :: "'a list \<Rightarrow> int \<Rightarrow> 'a \<Rightarrow> 'a list" where
  "srealloc xs n v = take (nat n) xs @ replicate (nat n - length xs) v"

definition extend :: "st \<Rightarrow> st" where
  "extend s =
     (let s1 = s\<lparr>npoint_old := surf_npoint s, nline_old := surf_nline s, ntri_old := surf_ntri s\<rparr>
      in s1\<lparr>pts := srealloc (surf_pts s) (npoint_old s1 + npoint_new s1) \<lparr>x0 = 0, x1 = 0, x2 = 0\<rparr>,
            lines := srealloc (surf_lines s) (nline_old s1 + nline_new s1)
                       \<lparr>line_id = 0, line_p1 = 0, line_p2 = 0\<rparr>,
            tris := srealloc (surf_tris s) (ntri_old s1 + ntri_new s1)
                      \<lparr>tri_id = 0, tri_p1 = 0, tri_p2 = 0, tri_p3 = 0\<rparr>\<rparr>)"

text \<open>
  The update of the store at the end of the command, with the request to the store to
  compute the normals of the new lines or triangles.
\<close>

definition commit :: "st \<Rightarrow> st" where
  "commit s =
     s\<lparr>surf_pts := pts s, surf_lines := lines s, surf_tris := tris s,
       surf_npoint := npoint_old s + npoint_new s,
       surf_nline := nline_old s + nline_new s,
       surf_ntri := ntri_old s + ntri_new s,
       surf_normals := surf_normals s @
         (if dimension s = 2 then [(2, nline_old s, nline_new s)] else []) @
         (if dimension s = 3 then [(3, ntri_old s, ntri_new s)] else [])\<rparr>"

text \<open>
  \<open>ReadSurf::command\<close>, statement by statement; \<open>arg\<close> holds the \<open>narg\<close> arguments.
  The extent of the new points is only printed and is left out.
\<close>

definition ingest :: "string list \<Rightarrow> (st \<Rightarrow> st outcome) list" where
  "ingest arg =
     [\<lambda>s. if \<not> grid_exist s then Abort Cannot_read_surf_before_grid s else Done s,
      \<lambda>s. Done (s\<lparr>surf_exist := True\<rparr>),
      \<lambda>s. if length arg < 2 then Abort Illegal_command s else Done s,
      \<lambda>s. Done (s\<lparr>dimension := domain_dimension s\<rparr>),
      \<lambda>s. Done (add_id (arg ! 0) s),
      open_file (arg ! 1),
      header,
      \<lambda>s. Done (extend s),
      parse_keyword True,
      \<lambda>s. if keyword s \<noteq> ''Points'' then Abort Cannot_parse_Points s else Done s,
      read_points,
      parse_keyword False,
      \<lambda>s. if dimension s = 2
           then (if keyword s \<noteq> ''Lines'' then Abort Cannot_parse_Lines s else read_lines s)
           else (if keyword s \<noteq> ''Triangles'' then Abort Cannot_parse_Triangles s else read_tris s),
      \<lambda>s. Done (s\<lparr>fp := []\<rparr>)]"

definition validate :: "(st \<Rightarrow> st outcome) list" where
  "validate =
     [check_point_inside,
      check_point_pairs,
      \<lambda>s. if dimension s = 2 then check_watertight_2d s else Done s,
      \<lambda>s. if dimension s = 3 then check_watertight_3d s else Done s]"

definition command :: "string list \<Rightarrow> st \<Rightarrow> st outcome" where
  "command arg s =
     seq (ingest arg @
          [\<lambda>s. Done (s\<lparr>origin := (0, 0, 0)\<rparr>), transforms (drop 2 arg)] @
          validate @
          [\<lambda>s. Done (commit s)]) s"

section \<open>Example states\<close>

text \<open>
  A two-dimensional domain of 12 by 12 with an empty store; the examples below change
  the fields they need.
\<close>

definition st0 :: st where
  "st0 = \<lparr>grid_exist = True, domain_dimension = 2, boxlo = (0, 0, - 1 / 2), boxhi = (12, 12, 1 / 2),
     xprd = 12, yprd = 12, zprd = 1, surf_exist = False, surf_ids = [], surf_pts = [],
     surf_lines = [], surf_tris = [], surf_npoint = 0, surf_nline = 0, surf_ntri = 0,
     surf_normals = [], files = (\<lambda>name. None), gzip_enabled = False, fp = [], compressed = False,
     line = [], keyword = [], dimension = 2, sid = 0, pts = [], lines = [], tris = [],
     npoint_old = 0, nline_old = 0, ntri_old = 0, npoint_new = 0, nline_new = 0, ntri_new = 0,
     origin = (0, 0, 0)\<rparr>"

text \<open>A pentagon that misses its last segment: the points 0 and 4 end one segment only.\<close>

definition open_pentagon :: st where
  "open_pentagon = st0\<lparr>npoint_new := 5, nline_new := 4,
     pts := [\<lparr>x0 = 6, x1 = 2, x2 = 0\<rparr>, \<lparr>x0 = 9, x1 = 5, x2 = 0\<rparr>, \<lparr>x0 = 8, x1 = 9, x2 = 0\<rparr>,
             \<lparr>x0 = 4, x1 = 9, x2 = 0\<rparr>, \<lparr>x0 = 3, x1 = 5, x2 = 0\<rparr>],
     lines := [\<lparr>line_id = 0, line_p1 = 0, line_p2 = 1\<rparr>, \<lparr>line_id = 0, line_p1 = 1, line_p2 = 2\<rparr>,
               \<lparr>line_id = 0, line_p1 = 2, line_p2 = 3\<rparr>, \<lparr>line_id = 0, line_p1 = 3, line_p2 = 4\<rparr>]\<rparr>"


section \<open>Verification\<close>

subsection \<open>Counting loops\<close>

lemma fold_count:
  "fold (\<lambda>m nbad. if P m then nbad + 1 else nbad) ms (k::int) = k + int (length (filter P ms))"
  by (induction ms arbitrary: k) auto

lemma distinct_block: "distinct (block old new)"
  by (simp add: block_def)

lemma not_inside_iff:
  "not_inside lo hi p \<longleftrightarrow>
     x0 p \<le> fst lo \<or> x0 p \<ge> fst hi \<or> x1 p \<le> fst (snd lo) \<or> x1 p \<ge> fst (snd hi) \<or>
     x2 p \<le> snd (snd lo) \<or> x2 p \<ge> snd (snd hi)"
  by (simp add: not_inside_def split_beta)

subsection \<open>The two-dimensional watertightness check\<close>

lemma incr_Some:
  "0 \<le> i \<Longrightarrow> i < int (length a) \<Longrightarrow> incr a i = Some (a[nat i := a ! nat i + 1])"
  by (simp add: incr_def)

lemma tally_ends_spec:
  assumes "\<forall>m \<in> set ms. 0 \<le> line_p1 (ls ! m) - old \<and> line_p1 (ls ! m) - old < int (length c) \<and>
                        0 \<le> line_p2 (ls ! m) - old \<and> line_p2 (ls ! m) - old < int (length c)"
  shows "\<exists>c'. tally_ends ls old ms c = Some c' \<and> length c' = length c \<and>
           (\<forall>i < length c. c' ! i = c ! i
               + int (length (filter (\<lambda>m. line_p1 (ls ! m) - old = int i) ms))
               + int (length (filter (\<lambda>m. line_p2 (ls ! m) - old = int i) ms)))"
  using assms
proof (induction ms arbitrary: c)
  case Nil
  then show ?case by simp
next
  case (Cons m ms)
  let ?p1 = "line_p1 (ls ! m) - old" and ?p2 = "line_p2 (ls ! m) - old"
  let ?c1 = "c[nat ?p1 := c ! nat ?p1 + 1]"
  let ?c2 = "?c1[nat ?p2 := ?c1 ! nat ?p2 + 1]"
  from Cons.prems have r: "0 \<le> ?p1" "?p1 < int (length c)" "0 \<le> ?p2" "?p2 < int (length c)"
    by auto
  have len: "length ?c2 = length c" by simp
  from Cons.prems have "\<forall>m \<in> set ms. 0 \<le> line_p1 (ls ! m) - old \<and> line_p1 (ls ! m) - old < int (length ?c2) \<and>
                        0 \<le> line_p2 (ls ! m) - old \<and> line_p2 (ls ! m) - old < int (length ?c2)"
    by simp
  from Cons.IH [OF this] obtain c' where c': "tally_ends ls old ms ?c2 = Some c'"
    "length c' = length ?c2"
    "\<forall>i < length ?c2. c' ! i = ?c2 ! i
               + int (length (filter (\<lambda>m. line_p1 (ls ! m) - old = int i) ms))
               + int (length (filter (\<lambda>m. line_p2 (ls ! m) - old = int i) ms))"
    by blast
  have step: "tally_ends ls old (m # ms) c = tally_ends ls old ms ?c2"
    using r by (simp add: incr_def Let_def)
  have upd: "\<And>i. i < length c \<Longrightarrow>
       ?c2 ! i = c ! i + (if ?p1 = int i then 1 else 0) + (if ?p2 = int i then 1 else 0)"
    using r by (auto simp: nth_list_update)
  show ?case
    unfolding step using c' upd len by auto
qed

lemma filter_disj_length:
  "\<forall>x \<in> set xs. \<not> (P x \<and> Q x) \<Longrightarrow>
   length (filter P xs) + length (filter Q xs) = length (filter (\<lambda>x. P x \<or> Q x) xs)"
  by (induction xs) auto



text \<open>
  Claim C6. On a new block whose lines join two different points of the new block (which
  is what \<open>read_lines\<close> stores), the two-dimensional watertightness check ends the
  command with a TopologyError exactly when some new point is an endpoint of a number of
  new lines other than 2, and the message carries the number of these points.
\<close>

theorem check_watertight_2d_iff:
  assumes "\<forall>m \<in> set (block (nline_old s) (nline_new s)).
             npoint_old s \<le> line_p1 (lines s ! m) \<and> line_p1 (lines s ! m) < npoint_old s + npoint_new s \<and>
             npoint_old s \<le> line_p2 (lines s ! m) \<and> line_p2 (lines s ! m) < npoint_old s + npoint_new s \<and>
             line_p1 (lines s ! m) \<noteq> line_p2 (lines s ! m)"
  shows "check_watertight_2d s =
     (let degree = (\<lambda>i. length (filter (\<lambda>m. line_p1 (lines s ! m) = npoint_old s + int i \<or>
                                            line_p2 (lines s ! m) = npoint_old s + int i)
                                  (block (nline_old s) (nline_new s))));
          bad = filter (\<lambda>i. degree i \<noteq> 2) [0..<nat (npoint_new s)]
      in if bad = [] then Done s else Abort (Lines_not_watertight (int (length bad))) s)
   \<and> class_of (Lines_not_watertight n) = TopologyError"
proof -
  let ?B = "block (nline_old s) (nline_new s)"
  let ?old = "npoint_old s"
  let ?N = "nat (npoint_new s)"
  let ?c0 = "replicate ?N (0::int)"
  let ?deg = "\<lambda>i. length (filter (\<lambda>m. line_p1 (lines s ! m) = ?old + int i \<or>
                                     line_p2 (lines s ! m) = ?old + int i) ?B)"
  have rng: "\<forall>m \<in> set ?B. 0 \<le> line_p1 (lines s ! m) - ?old \<and> line_p1 (lines s ! m) - ?old < int (length ?c0) \<and>
                        0 \<le> line_p2 (lines s ! m) - ?old \<and> line_p2 (lines s ! m) - ?old < int (length ?c0)"
    using assms by fastforce
  from tally_ends_spec [OF rng] obtain c where c: "tally_ends (lines s) ?old ?B ?c0 = Some c"
    "length c = ?N"
    "\<forall>i < ?N. c ! i = ?c0 ! i
               + int (length (filter (\<lambda>m. line_p1 (lines s ! m) - ?old = int i) ?B))
               + int (length (filter (\<lambda>m. line_p2 (lines s ! m) - ?old = int i) ?B))"
    by auto
  have deg: "c ! i = int (?deg i)" if "i < ?N" for i
  proof -
    have "\<forall>m \<in> set ?B. \<not> (line_p1 (lines s ! m) - ?old = int i \<and> line_p2 (lines s ! m) - ?old = int i)"
      using assms by auto
    from filter_disj_length [OF this]
    have "length (filter (\<lambda>m. line_p1 (lines s ! m) - ?old = int i) ?B)
        + length (filter (\<lambda>m. line_p2 (lines s ! m) - ?old = int i) ?B)
        = length (filter (\<lambda>m. line_p1 (lines s ! m) - ?old = int i \<or> line_p2 (lines s ! m) - ?old = int i) ?B)" .
    moreover have "(\<lambda>m. line_p1 (lines s ! m) - ?old = int i \<or> line_p2 (lines s ! m) - ?old = int i)
      = (\<lambda>m. line_p1 (lines s ! m) = ?old + int i \<or> line_p2 (lines s ! m) = ?old + int i)"
      by (rule ext) auto
    ultimately show ?thesis using c(3) that by simp
  qed
  have "filter (\<lambda>i. c ! i \<noteq> 2) [0..<?N] = filter (\<lambda>i. ?deg i \<noteq> 2) [0..<?N]"
    by (rule filter_cong) (auto simp: deg)
  then have "count_not_2 c (npoint_new s) = int (length (filter (\<lambda>i. ?deg i \<noteq> 2) [0..<?N]))"
    by (simp add: count_not_2_def fold_count)
  then show ?thesis
    by (simp add: check_watertight_2d_def c(1) Let_def)
qed


text \<open>The pentagon that misses one segment: exactly 2 failures.\<close>

theorem open_pentagon_two_failures:
  "check_watertight_2d open_pentagon = Abort (Lines_not_watertight 2) open_pentagon"
proof -
  have f: "nline_old open_pentagon = 0" "nline_new open_pentagon = 4"
    "npoint_old open_pentagon = 0" "npoint_new open_pentagon = 5"
    "lines open_pentagon =
       [\<lparr>line_id = 0, line_p1 = 0, line_p2 = 1\<rparr>, \<lparr>line_id = 0, line_p1 = 1, line_p2 = 2\<rparr>,
        \<lparr>line_id = 0, line_p1 = 2, line_p2 = 3\<rparr>, \<lparr>line_id = 0, line_p1 = 3, line_p2 = 4\<rparr>]"
    by (simp_all add: open_pentagon_def st0_def)
  have hyp: "\<forall>m \<in> set (block (nline_old open_pentagon) (nline_new open_pentagon)).
             npoint_old open_pentagon \<le> line_p1 (lines open_pentagon ! m) \<and>
             line_p1 (lines open_pentagon ! m) < npoint_old open_pentagon + npoint_new open_pentagon \<and>
             npoint_old open_pentagon \<le> line_p2 (lines open_pentagon ! m) \<and>
             line_p2 (lines open_pentagon ! m) < npoint_old open_pentagon + npoint_new open_pentagon \<and>
             line_p1 (lines open_pentagon ! m) \<noteq> line_p2 (lines open_pentagon ! m)"
    unfolding f by code_simp
  have bad: "filter (\<lambda>i. length (filter (\<lambda>m. line_p1 (lines open_pentagon ! m) = npoint_old open_pentagon + int i \<or>
                                            line_p2 (lines open_pentagon ! m) = npoint_old open_pentagon + int i)
                                  (block (nline_old open_pentagon) (nline_new open_pentagon))) \<noteq> 2)
               [0..<nat (npoint_new open_pentagon)] = [0, 4]"
    unfolding f by code_simp
  show ?thesis
    using check_watertight_2d_iff [OF hyp, of 0] unfolding Let_def bad by simp
qed

subsection \<open>The inside-box check\<close>

text \<open>
  Claim C8. The inside-box check ends the command with a GeometryError exactly when at
  least one point of the new block has a coordinate less than or equal to the lower bound
  of the box or greater than or equal to its upper bound, and the message carries the
  number of these points; otherwise the check passes and leaves the state as it is.
\<close>

theorem check_point_inside_iff:
  "check_point_inside s =
     (let bad = filter (\<lambda>m. x0 (pts s ! m) \<le> fst (boxlo s) \<or> x0 (pts s ! m) \<ge> fst (boxhi s) \<or>
                     x1 (pts s ! m) \<le> fst (snd (boxlo s)) \<or> x1 (pts s ! m) \<ge> fst (snd (boxhi s)) \<or>
                     x2 (pts s ! m) \<le> snd (snd (boxlo s)) \<or> x2 (pts s ! m) \<ge> snd (snd (boxhi s)))
                  (block (npoint_old s) (npoint_new s))
      in if bad = [] then Done s else Abort (Points_not_inside (int (length bad))) s)
   \<and> class_of (Points_not_inside n) = GeometryError"
  by (simp add: check_point_inside_def count_not_inside_def fold_count not_inside_iff Let_def)

text \<open>
  A point with \<open>x = boxlo[0]\<close> beside a point inside the box: the check fails and
  reports one point.
\<close>

theorem check_point_inside_boundary:
  "check_point_inside (st0\<lparr>npoint_new := 2, pts := [\<lparr>x0 = 0, x1 = 5, x2 = 0\<rparr>, \<lparr>x0 = 3, x1 = 5, x2 = 0\<rparr>]\<rparr>)
     = Abort (Points_not_inside 1)
         (st0\<lparr>npoint_new := 2, pts := [\<lparr>x0 = 0, x1 = 5, x2 = 0\<rparr>, \<lparr>x0 = 3, x1 = 5, x2 = 0\<rparr>]\<rparr>)"
  using check_point_inside_iff
    [of "st0\<lparr>npoint_new := 2, pts := [\<lparr>x0 = 0, x1 = 5, x2 = 0\<rparr>, \<lparr>x0 = 3, x1 = 5, x2 = 0\<rparr>]\<rparr>" 0]
  by (simp add: st0_def Let_def block_def upt_rec)

end
